theory Spec2Isabelle
  imports Main "HOL-Library.Sublist"
begin

section \<open>Python values\<close>

text \<open>
  The values that travel through \<^verbatim>\<open>timeSystemLib.py\<close>: the keyword options of
  \<^verbatim>\<open>generate\<close>, the construction variables read from the environment and the
  keyword arguments handed to \<^verbatim>\<open>env.Tool\<close>. The options may hold any object;
  \<^verbatim>\<open>generate\<close> does one thing with the value of \<^verbatim>\<open>depsOnly\<close>, it tests its truth,
  and the truth test of an object is code of that object: it returns a boolean or it
  raises. \<open>PObject t\<close> is an object whose truth test has the outcome \<open>t\<close>; the type
  \<open>'x\<close> is the type of exceptions.
\<close>

datatype 'x pyval =
  PNone | PBool bool | PInt int | PStr string | PList "'x pyval list" | PObject "'x + bool"

text \<open>Python's truth value testing, as \<^verbatim>\<open>not\<close> applies it: \<open>Inl\<close> when it raises.\<close>

fun truth_test :: "'x pyval \<Rightarrow> 'x + bool" where
  "truth_test PNone = Inr False"
| "truth_test (PBool b) = Inr b"
| "truth_test (PInt n) = Inr (n \<noteq> 0)"
| "truth_test (PStr s) = Inr (s \<noteq> [])"
| "truth_test (PList xs) = Inr (xs \<noteq> [])"
| "truth_test (PObject t) = t"

text \<open>\<^verbatim>\<open>d.get(k, dflt)\<close> on a dictionary with string keys.\<close>

definition dict_get :: "(string \<rightharpoonup> 'x pyval) \<Rightarrow> string \<Rightarrow> 'x pyval \<Rightarrow> 'x pyval" where
  "dict_get d k dflt = (case d k of None \<Rightarrow> dflt | Some v \<Rightarrow> v)"

section \<open>The build environment\<close>

text \<open>
  The environment \<^verbatim>\<open>env\<close> is an object of the build tool, not of this module. The
  module uses two of its operations: the method \<^verbatim>\<open>env.Tool(name, **kwargs)\<close> and
  the subscript \<^verbatim>\<open>env[key]\<close>. Both are parameters of the model. The object's
  state has an arbitrary type \<open>'s\<close>. Each operation either raises or returns a value,
  and leaves the object in a new state in both cases.
\<close>

type_synonym 'x kwargs = "(string \<times> 'x pyval) list"

record ('s, 'x) environment =
  Tool :: "string \<Rightarrow> 'x kwargs \<Rightarrow> 's \<Rightarrow> ('x + 'x pyval) \<times> 's"
  getitem :: "string \<Rightarrow> 's \<Rightarrow> ('x + 'x pyval) \<times> 's"

text \<open>
  What the module asks of the environment, and one entry of the trace of an invocation:
  the request together with the environment's reply (\<open>Inl\<close> an exception raised,
  \<open>Inr\<close> a value returned).
\<close>

datatype 'x request = Call_Tool string "'x kwargs" | Call_getitem string

type_synonym 'x event = "'x request \<times> ('x + 'x pyval)"

text \<open>
  An invocation ends with a result (an exception or a return value), the events it issued
  in order, and the state it leaves the environment in. An exception does not undo the
  calls made before it.
\<close>

record ('s, 'x, 'a) outcome =
  result :: "'x + 'a"
  issued :: "'x event list"
  env_after :: 's

type_synonym ('s, 'x, 'a) prog = "'s \<Rightarrow> ('s, 'x, 'a) outcome"

definition ret :: "'a \<Rightarrow> ('s, 'x, 'a) prog" where
  "ret a s = \<lparr>result = Inr a, issued = [], env_after = s\<rparr>"

text \<open>Sequencing: the rest runs only when the first part returned; an exception propagates.\<close>

definition andThen :: "('s, 'x, 'a) prog \<Rightarrow> ('a \<Rightarrow> ('s, 'x, 'b) prog) \<Rightarrow> ('s, 'x, 'b) prog" where
  "andThen p f s =
     (case result (p s) of
        Inl x \<Rightarrow> \<lparr>result = Inl x, issued = issued (p s), env_after = env_after (p s)\<rparr>
      | Inr a \<Rightarrow>
          \<lparr>result = result (f a (env_after (p s))),
           issued = issued (p s) @ issued (f a (env_after (p s))),
           env_after = env_after (f a (env_after (p s)))\<rparr>)"

definition call_Tool :: "('s, 'x) environment \<Rightarrow> string \<Rightarrow> 'x kwargs \<Rightarrow> ('s, 'x, 'x pyval) prog" where
  "call_Tool E name kws s =
     \<lparr>result = fst (Tool E name kws s),
      issued = [(Call_Tool name kws, fst (Tool E name kws s))],
      env_after = snd (Tool E name kws s)\<rparr>"

definition call_getitem :: "('s, 'x) environment \<Rightarrow> string \<Rightarrow> ('s, 'x, 'x pyval) prog" where
  "call_getitem E key s =
     \<lparr>result = fst (getitem E key s),
      issued = [(Call_getitem key, fst (getitem E key s))],
      env_after = snd (getitem E key s)\<rparr>"

text \<open>
  Testing the truth of a value asks nothing of the environment: it returns the boolean
  or raises what the value's truth test raises.
\<close>

definition test_truth :: "'x pyval \<Rightarrow> ('s, 'x, bool) prog" where
  "test_truth v s = \<lparr>result = truth_test v, issued = [], env_after = s\<rparr>"

text \<open>The events of an earlier part, put in front of those of a later part.\<close>

definition prepend :: "'x event list \<Rightarrow> ('s, 'x, 'a) outcome \<Rightarrow> ('s, 'x, 'a) outcome" where
  "prepend evs out = out\<lparr>issued := evs @ issued out\<rparr>"

section \<open>The module\<close>

text \<open>
  \<^verbatim>\<open>
  def generate(env, **kw):
      if not kw.get('depsOnly',0):
          env.Tool('addLibrary', library = ['timeSystem'])
      env.Tool('st_facilitiesLib')
      env.Tool('st_streamLib')
      env.Tool('tipLib')
      env.Tool('st_appLib')
      env.Tool('addLibrary', library = env['cfitsioLibs'])

  def exists(env):
      return 1
  \<close>
  The condition of the \<^verbatim>\<open>if\<close> tests the truth of the option's value before anything
  is asked of the environment. In the last statement of \<^verbatim>\<open>generate\<close> the argument
  \<^verbatim>\<open>env['cfitsioLibs']\<close> is evaluated before the call is made. A function that ends
  without \<^verbatim>\<open>return\<close> returns \<^verbatim>\<open>None\<close>.
\<close>

definition generate :: "('s, 'x) environment \<Rightarrow> (string \<rightharpoonup> 'x pyval) \<Rightarrow> ('s, 'x, 'x pyval) prog" where
  "generate E kw =
     andThen (test_truth (dict_get kw ''depsOnly'' (PInt 0))) (\<lambda>depsOnly.
     andThen (if \<not> depsOnly
              then call_Tool E ''addLibrary'' [(''library'', PList [PStr ''timeSystem''])]
              else ret PNone) (\<lambda>_.
     andThen (call_Tool E ''st_facilitiesLib'' []) (\<lambda>_.
     andThen (call_Tool E ''st_streamLib'' []) (\<lambda>_.
     andThen (call_Tool E ''tipLib'' []) (\<lambda>_.
     andThen (call_Tool E ''st_appLib'' []) (\<lambda>_.
     andThen (call_getitem E ''cfitsioLibs'') (\<lambda>libs.
     andThen (call_Tool E ''addLibrary'' [(''library'', libs)]) (\<lambda>_.
     ret PNone))))))))"

definition exists :: "('s, 'x) environment \<Rightarrow> ('s, 'x, 'x pyval) prog" where
  "exists E = ret (PInt 1)"

section \<open>Reading a trace\<close>

definition requests :: "('s, 'x, 'a) outcome \<Rightarrow> 'x request list" where
  "requests out = map fst (issued out)"

text \<open>The exception a reply or a result carries, if any.\<close>

fun raised :: "'x + 'a \<Rightarrow> 'x option" where
  "raised (Inl x) = Some x"
| "raised (Inr a) = None"

definition returned :: "'x event \<Rightarrow> bool" where
  "returned e = (raised (snd e) = None)"

text \<open>\<^verbatim>\<open>env.Tool('addLibrary', library = ['timeSystem'])\<close>: the module's own library.\<close>

definition artifact_call :: "'x request" where
  "artifact_call = Call_Tool ''addLibrary'' [(''library'', PList [PStr ''timeSystem''])]"

text \<open>The four fixed-name registrations, in the order of the source.\<close>

definition dependency_calls :: "'x request list" where
  "dependency_calls =
     [Call_Tool ''st_facilitiesLib'' [], Call_Tool ''st_streamLib'' [],
      Call_Tool ''tipLib'' [], Call_Tool ''st_appLib'' []]"

text \<open>\<^verbatim>\<open>env.Tool('addLibrary', library = libs)\<close> with the list read from the environment.\<close>

definition third_party_call :: "'x pyval \<Rightarrow> 'x request" where
  "third_party_call libs = Call_Tool ''addLibrary'' [(''library'', libs)]"

text \<open>The dependency registrations among the requests of an invocation, in order.\<close>

definition dependencies_issued :: "('s, 'x, 'a) outcome \<Rightarrow> 'x request list" where
  "dependencies_issued out = filter (\<lambda>r. r \<in> set dependency_calls) (requests out)"

text \<open>How often a request occurs in the whole sequence.\<close>

definition times_issued :: "'x request \<Rightarrow> ('s, 'x, 'a) outcome \<Rightarrow> nat" where
  "times_issued r out = count_list (requests out) r"

text \<open>No \<^verbatim>\<open>Tool\<close> call of this invocation raised.\<close>

fun Tool_event_returned :: "'x event \<Rightarrow> bool" where
  "Tool_event_returned (Call_Tool name kws, reply) = (raised reply = None)"
| "Tool_event_returned (Call_getitem key, reply) = True"

definition no_Tool_raised :: "('s, 'x, 'a) outcome \<Rightarrow> bool" where
  "no_Tool_raised out = list_all Tool_event_returned (issued out)"

text \<open>
  What the environment did in an invocation, request by request: for each request in
  turn the exception it raised, if any; and the replies to \<^verbatim>\<open>env['cfitsioLibs']\<close>.
\<close>

definition raises :: "('s, 'x, 'a) outcome \<Rightarrow> 'x option list" where
  "raises out = map (\<lambda>e. raised (snd e)) (issued out)"

definition lookup_replies :: "('s, 'x, 'a) outcome \<Rightarrow> ('x + 'x pyval) list" where
  "lookup_replies out =
     map snd (filter (\<lambda>e. fst e = Call_getitem ''cfitsioLibs'') (issued out))"

section \<open>Concrete environments and inputs\<close>

datatype exn = KeyError string | UserError string | ValueError string

text \<open>
  A recording double for a given configuration mapping: its state is the list of the
  \<^verbatim>\<open>Tool\<close> calls it has received, every \<^verbatim>\<open>Tool\<close> call returns, and the
  subscript raises \<^verbatim>\<open>KeyError\<close> for a key the configuration does not bind.
\<close>

definition recorder :: "(string \<rightharpoonup> exn pyval) \<Rightarrow> (exn request list, exn) environment" where
  "recorder config =
     \<lparr>Tool = (\<lambda>name kws s. (Inr PNone, s @ [Call_Tool name kws])),
      getitem = (\<lambda>key s.
        (case config key of None \<Rightarrow> Inl (KeyError key) | Some v \<Rightarrow> Inr v, s))\<rparr>"

text \<open>The same, except that the tool named \<open>missing\<close> cannot be resolved.\<close>

definition unresolved ::
  "string \<Rightarrow> (string \<rightharpoonup> exn pyval) \<Rightarrow> (exn request list, exn) environment" where
  "unresolved missing config =
     \<lparr>Tool = (\<lambda>name kws s.
        if name = missing then (Inl (UserError name), s)
        else (Inr PNone, s @ [Call_Tool name kws])),
      getitem = (\<lambda>key s.
        (case config key of None \<Rightarrow> Inl (KeyError key) | Some v \<Rightarrow> Inr v, s))\<rparr>"

text \<open>
  An environment whose state is its construction variables: \<^verbatim>\<open>Tool\<close> returns and
  leaves them alone, the subscript reads them.
\<close>

definition variables :: "(string \<rightharpoonup> exn pyval, exn) environment" where
  "variables =
     \<lparr>Tool = (\<lambda>name kws s. (Inr PNone, s)),
      getitem = (\<lambda>key s.
        (case s key of None \<Rightarrow> Inl (KeyError key) | Some v \<Rightarrow> Inr v, s))\<rparr>"

text \<open>
  An environment that refuses to load a tool a second time: its state is the list of
  the tools loaded so far (calls with keyword arguments are not remembered), and
  \<^verbatim>\<open>cfitsioLibs\<close> is bound to \<^verbatim>\<open>['cfitsio']\<close>.
\<close>

definition load_once :: "(string list, exn) environment" where
  "load_once =
     \<lparr>Tool = (\<lambda>name kws s.
        if name \<in> set s then (Inl (UserError name), s)
        else (Inr PNone, if kws = [] then name # s else s)),
      getitem = (\<lambda>key s.
        (if key = ''cfitsioLibs'' then Inr (PList [PStr ''cfitsio'']) else Inl (KeyError key),
         s))\<rparr>"

definition no_options :: "string \<rightharpoonup> exn pyval" where
  "no_options = Map.empty"

definition falsy_options :: "string \<rightharpoonup> exn pyval" where
  "falsy_options = [''depsOnly'' \<mapsto> PInt 0]"

definition deps_only :: "string \<rightharpoonup> exn pyval" where
  "deps_only = [''depsOnly'' \<mapsto> PBool True]"

text \<open>Options whose \<^verbatim>\<open>depsOnly\<close> is an object with a truth test that raises.\<close>

definition untestable_options :: "string \<rightharpoonup> exn pyval" where
  "untestable_options = [''depsOnly'' \<mapsto> PObject (Inl (ValueError ''truth value is ambiguous''))]"

definition empty_config :: "string \<rightharpoonup> exn pyval" where
  "empty_config = Map.empty"

definition cfitsio_config :: "string \<rightharpoonup> exn pyval" where
  "cfitsio_config = [''cfitsioLibs'' \<mapsto> PList [PStr ''cfitsio'']]"

definition clash_config :: "string \<rightharpoonup> exn pyval" where
  "clash_config = [''cfitsioLibs'' \<mapsto> PList [PStr ''timeSystem'']]"

section \<open>The shape of a run\<close>

text \<open>
  The requests \<^verbatim>\<open>generate\<close> makes before it reads \<^verbatim>\<open>cfitsioLibs\<close>, when none of
  them raises; \<open>depsOnly\<close> is the outcome of the truth test.
\<close>

definition script_before :: "bool \<Rightarrow> 'x request list" where
  "script_before depsOnly = (if \<not> depsOnly then [artifact_call] else []) @ dependency_calls"

text \<open>
  An outcome follows a script \<open>rs\<close> of \<^verbatim>\<open>Tool\<close> calls when it has one of three forms:
  a call of the script raised, and nothing was issued after it; all calls of the script
  returned and the subscript \<^verbatim>\<open>env['cfitsioLibs']\<close> raised; or the subscript returned a
  value \<open>v\<close> and the last request registered \<open>v\<close>.
\<close>

definition follows :: "'x request list \<Rightarrow> ('s, 'x, 'x pyval) outcome \<Rightarrow> bool" where
  "follows rs out =
     ((\<exists>evs r post x. rs = map fst evs @ r # post \<and> list_all returned evs \<and>
          issued out = evs @ [(r, Inl x)] \<and> result out = Inl x) \<or>
      (\<exists>evs x. rs = map fst evs \<and> list_all returned evs \<and>
          issued out = evs @ [(Call_getitem ''cfitsioLibs'', Inl x)] \<and> result out = Inl x) \<or>
      (\<exists>evs v r. rs = map fst evs \<and> list_all returned evs \<and>
          issued out = evs @ [(Call_getitem ''cfitsioLibs'', Inr v), (third_party_call v, r)] \<and>
          result out = (case r of Inl x \<Rightarrow> Inl x | Inr w \<Rightarrow> Inr PNone)))"

section \<open>Sequencing\<close>

lemma result_andThen:
  "result (andThen p f s) =
     (case result (p s) of Inl x \<Rightarrow> Inl x | Inr a \<Rightarrow> result (f a (env_after (p s))))"
  by (simp add: andThen_def split: sum.splits)

lemma issued_andThen:
  "issued (andThen p f s) =
     (case result (p s) of Inl x \<Rightarrow> issued (p s)
      | Inr a \<Rightarrow> issued (p s) @ issued (f a (env_after (p s))))"
  by (simp add: andThen_def split: sum.splits)

lemma env_after_andThen:
  "env_after (andThen p f s) =
     (case result (p s) of Inl x \<Rightarrow> env_after (p s)
      | Inr a \<Rightarrow> env_after (f a (env_after (p s))))"
  by (simp add: andThen_def split: sum.splits)

lemma andThen_ret: "andThen (ret a) f s = f a s"
  by (simp add: andThen_def ret_def)

lemma andThen_test_truth:
  "andThen (test_truth v) f s =
     (case truth_test v of
        Inl x \<Rightarrow> \<lparr>result = Inl x, issued = [], env_after = s\<rparr>
      | Inr b \<Rightarrow> f b s)"
  by (simp add: andThen_def test_truth_def split: sum.splits)

section \<open>Every run follows the script\<close>

lemma follows_Tool_raised:
  "rs = map fst evs @ r # post \<Longrightarrow> list_all returned evs \<Longrightarrow>
   issued out = evs @ [(r, Inl x)] \<Longrightarrow> result out = Inl x \<Longrightarrow> follows rs out"
  unfolding follows_def by blast

lemma follows_lookup_raised:
  "rs = map fst evs \<Longrightarrow> list_all returned evs \<Longrightarrow>
   issued out = evs @ [(Call_getitem ''cfitsioLibs'', Inl x)] \<Longrightarrow> result out = Inl x \<Longrightarrow>
   follows rs out"
  unfolding follows_def by blast

lemma follows_registered:
  "rs = map fst evs \<Longrightarrow> list_all returned evs \<Longrightarrow>
   issued out = evs @ [(Call_getitem ''cfitsioLibs'', Inr v), (third_party_call v, r)] \<Longrightarrow>
   result out = (case r of Inl x \<Rightarrow> Inl x | Inr w \<Rightarrow> Inr PNone) \<Longrightarrow> follows rs out"
  unfolding follows_def by blast

lemma follows_cases [consumes 1, case_names Tool_raised lookup_raised registered]:
  assumes "follows rs out"
  obtains
    evs r post x where "rs = map fst evs @ r # post" "list_all returned evs"
      "issued out = evs @ [(r, Inl x)]" "result out = Inl x"
  | evs x where "rs = map fst evs" "list_all returned evs"
      "issued out = evs @ [(Call_getitem ''cfitsioLibs'', Inl x)]" "result out = Inl x"
  | evs v r where "rs = map fst evs" "list_all returned evs"
      "issued out = evs @ [(Call_getitem ''cfitsioLibs'', Inr v), (third_party_call v, r)]"
      "result out = (case r of Inl x \<Rightarrow> Inl x | Inr w \<Rightarrow> Inr PNone)"
  using assms unfolding follows_def by blast

lemma follows_last_statement:
  "follows [] (andThen (call_getitem E ''cfitsioLibs'') (\<lambda>libs.
               andThen (call_Tool E ''addLibrary'' [(''library'', libs)]) (\<lambda>_. ret PNone)) s)"
proof (cases "fst (getitem E ''cfitsioLibs'' s)")
  case (Inl x)
  then show ?thesis
    by (intro follows_lookup_raised [where evs = "[]" and x = x])
       (simp_all add: result_andThen issued_andThen call_getitem_def)
next
  case (Inr v)
  then show ?thesis
    by (intro follows_registered [where evs = "[]" and v = v
          and r = "fst (Tool E ''addLibrary'' [(''library'', v)] (snd (getitem E ''cfitsioLibs'' s)))"])
       (simp_all add: result_andThen issued_andThen call_getitem_def call_Tool_def
          ret_def third_party_call_def split: sum.splits)
qed

lemma follows_Tool:
  assumes rest: "\<And>s'. follows rs (rest s')"
  shows "follows (Call_Tool name kws # rs) (andThen (call_Tool E name kws) (\<lambda>_. rest) s)"
proof (cases "fst (Tool E name kws s)")
  case (Inl x)
  then show ?thesis
    by (intro follows_Tool_raised
          [where evs = "[]" and x = x and r = "Call_Tool name kws" and post = rs])
       (simp_all add: result_andThen issued_andThen call_Tool_def)
next
  case (Inr w)
  let ?e = "(Call_Tool name kws, Inr w :: 'b + 'b pyval)"
  let ?s' = "snd (Tool E name kws s)"
  have iss: "issued (andThen (call_Tool E name kws) (\<lambda>_. rest) s) = ?e # issued (rest ?s')"
    and res: "result (andThen (call_Tool E name kws) (\<lambda>_. rest) s) = result (rest ?s')"
    using Inr by (simp_all add: issued_andThen result_andThen call_Tool_def)
  have ok: "returned ?e"
    by (simp add: returned_def)
  from rest [of ?s'] show ?thesis
  proof (cases rule: follows_cases)
    case (Tool_raised evs r post x)
    with ok show ?thesis
      by (intro follows_Tool_raised
            [where evs = "?e # evs" and r = r and post = post and x = x])
         (simp_all add: iss res)
  next
    case (lookup_raised evs x)
    with ok show ?thesis
      by (intro follows_lookup_raised [where evs = "?e # evs" and x = x])
         (simp_all add: iss res)
  next
    case (registered evs v r)
    with ok show ?thesis
      by (intro follows_registered [where evs = "?e # evs" and v = v and r = r])
         (simp_all add: iss res)
  qed
qed

lemma generate_truth_raised:
  assumes "truth_test (dict_get kw ''depsOnly'' (PInt 0)) = Inl x"
  shows "generate E kw s = \<lparr>result = Inl x, issued = [], env_after = s\<rparr>"
  using assms unfolding generate_def by (simp add: andThen_test_truth)

lemma follows_generate:
  assumes "truth_test (dict_get kw ''depsOnly'' (PInt 0)) = Inr b"
  shows "follows (script_before b) (generate E kw s)"
  using assms
  unfolding generate_def script_before_def dependency_calls_def artifact_call_def
  by (simp add: andThen_test_truth andThen_ret follows_Tool follows_last_statement)

section \<open>The cases of a run\<close>

lemma returned_not_raised: "list_all returned evs \<Longrightarrow> (r, Inl x) \<notin> set evs"
  by (auto simp: list_all_iff returned_def)

lemma returned_raises: "list_all returned evs \<Longrightarrow> map (\<lambda>e. raised (snd e)) evs = replicate (length evs) None"
  by (induction evs) (simp_all add: returned_def)

lemma returned_Tool_events: "list_all returned evs \<Longrightarrow> list_all Tool_event_returned evs"
proof (induction evs)
  case Nil
  then show ?case by simp
next
  case (Cons e evs)
  obtain r y where e: "e = (r, y)" by (cases e)
  with Cons show ?case by (cases r) (simp_all add: returned_def)
qed

lemma script_before_Tool: "r \<in> set (script_before b) \<Longrightarrow> \<exists>name kws. r = Call_Tool name kws"
  by (auto simp: script_before_def dependency_calls_def artifact_call_def split: if_splits)

lemma lookup_not_in_script:
  fixes evs :: "('x request \<times> 'r) list"
  assumes "script_before b = map fst evs @ post"
  shows "(Call_getitem key, y) \<notin> set evs"
proof
  assume "(Call_getitem key, y) \<in> set evs"
  then have "Call_getitem key \<in> set (map fst evs @ post)" by force
  then have "(Call_getitem key :: 'x request) \<in> set (script_before b)"
    by (simp only: assms)
  then show False
    using script_before_Tool by blast
qed

lemma no_lookup_filter:
  assumes "script_before b = map fst evs @ post"
  shows "filter (\<lambda>e. fst e = Call_getitem key) evs = []"
proof -
  have "fst e \<noteq> Call_getitem key" if "e \<in> set evs" for e
    using lookup_not_in_script [OF assms, of key "snd e"] that by (cases e) auto
  then show ?thesis by (simp add: filter_empty_conv)
qed

lemma generate_cases [case_names truth_raised Tool_raised lookup_raised registered]:
  obtains
    x where "truth_test (dict_get kw ''depsOnly'' (PInt 0)) = Inl x"
      "generate E kw s = \<lparr>result = Inl x, issued = [], env_after = s\<rparr>"
  | b evs r post x where "truth_test (dict_get kw ''depsOnly'' (PInt 0)) = Inr b"
      "script_before b = map fst evs @ r # post" "list_all returned evs"
      "issued (generate E kw s) = evs @ [(r, Inl x)]"
      "result (generate E kw s) = Inl x"
  | b evs x where "truth_test (dict_get kw ''depsOnly'' (PInt 0)) = Inr b"
      "script_before b = map fst evs" "list_all returned evs"
      "issued (generate E kw s) = evs @ [(Call_getitem ''cfitsioLibs'', Inl x)]"
      "result (generate E kw s) = Inl x"
  | b evs v r where "truth_test (dict_get kw ''depsOnly'' (PInt 0)) = Inr b"
      "script_before b = map fst evs" "list_all returned evs"
      "issued (generate E kw s) =
         evs @ [(Call_getitem ''cfitsioLibs'', Inr v), (third_party_call v, r)]"
      "result (generate E kw s) = (case r of Inl x \<Rightarrow> Inl x | Inr w \<Rightarrow> Inr PNone)"
proof (cases "truth_test (dict_get kw ''depsOnly'' (PInt 0))")
  case (Inl x)
  then show ?thesis
    using that(1) generate_truth_raised [of kw x E s] by blast
next
  case (Inr b)
  from follows_generate [OF Inr, of E s] show ?thesis
  proof (cases rule: follows_cases)
    case (Tool_raised evs r post x)
    with Inr show ?thesis by (rule that(2))
  next
    case (lookup_raised evs x)
    with Inr show ?thesis by (rule that(3))
  next
    case (registered evs v r)
    with Inr show ?thesis by (rule that(4))
  qed
qed

text \<open>Where the subscript occurs in a trace.\<close>

lemma lookup_in_Tool_raised:
  assumes "script_before b = map fst evs @ r # post"
  shows "(Call_getitem key, y) \<notin> set (evs @ [(r, z)])"
proof -
  have "r \<in> set (script_before b)" using assms by simp
  then have "r \<noteq> Call_getitem key" using script_before_Tool by blast
  with lookup_not_in_script [OF assms, of key y] show ?thesis by simp
qed

lemma lookup_in_lookup_raised:
  assumes "script_before b = map fst evs"
  shows "(Call_getitem ''cfitsioLibs'', y) \<in> set (evs @ [(Call_getitem ''cfitsioLibs'', z)]) \<longleftrightarrow> y = z"
  using lookup_not_in_script [of b evs "[]" "''cfitsioLibs''" y] assms by auto

lemma lookup_in_registered:
  assumes "script_before b = map fst evs"
  shows "(Call_getitem ''cfitsioLibs'', y)
      \<in> set (evs @ [(Call_getitem ''cfitsioLibs'', z), (third_party_call v, r)]) \<longleftrightarrow> y = z"
  using lookup_not_in_script [of b evs "[]" "''cfitsioLibs''" y] assms
  by (auto simp: third_party_call_def)

section \<open>Facts about the requests\<close>

lemma artifact_not_dependency: "artifact_call \<notin> set dependency_calls"
  by (simp add: artifact_call_def dependency_calls_def)

lemma third_party_not_dependency: "third_party_call v \<notin> set dependency_calls"
  by (simp add: third_party_call_def dependency_calls_def)

lemma lookup_not_dependency: "Call_getitem key \<notin> set dependency_calls"
  by (simp add: dependency_calls_def)

lemma third_party_is_artifact:
  "third_party_call v = artifact_call \<longleftrightarrow> v = PList [PStr ''timeSystem'']"
  by (auto simp: third_party_call_def artifact_call_def)

lemma lookup_distinct:
  "Call_getitem key \<noteq> artifact_call" "artifact_call \<noteq> Call_getitem key"
  "Call_getitem key \<noteq> third_party_call v" "third_party_call v \<noteq> Call_getitem key"
  by (simp_all add: artifact_call_def third_party_call_def)

lemma filter_script_before:
  "filter (\<lambda>r. r \<in> set dependency_calls) (script_before b) = dependency_calls"
  by (simp add: script_before_def artifact_not_dependency)

lemma count_dependency_calls: "r \<notin> set dependency_calls \<Longrightarrow> count_list dependency_calls r = 0"
  by (simp add: count_list_0_iff)

lemma count_script_before:
  "count_list (script_before b) artifact_call = (if b then 0 else 1)"
  by (simp add: script_before_def count_dependency_calls artifact_not_dependency)

lemma count_before_raise:
  assumes "script_before b = pre @ r # post"
  shows "count_list (pre @ [r]) artifact_call = (if b then 0 else 1)"
proof (cases b)
  case True
  then have "count_list (pre @ r # post) artifact_call = 0"
    using assms [symmetric] by (simp add: count_script_before)
  then show ?thesis
    using True by (simp split: if_splits)
next
  case False
  then have "artifact_call # dependency_calls = pre @ r # post"
    using assms by (simp add: script_before_def)
  then consider "pre = []" "r = artifact_call"
    | pre' where "pre = artifact_call # pre'" "dependency_calls = pre' @ r # post"
    by (auto simp: Cons_eq_append_conv)
  then show ?thesis
  proof cases
    case 1
    with False show ?thesis by simp
  next
    case 2
    have "count_list (pre' @ r # post) artifact_call = 0"
      using 2(2) [symmetric] by (simp add: count_dependency_calls artifact_not_dependency)
    with False 2(1) show ?thesis
      by (simp split: if_splits)
  qed
qed

lemma lookup_not_in_evs:
  fixes evs :: "('x request \<times> 'r) list"
  assumes "script_before b = map fst evs"
  shows "(Call_getitem key, y) \<notin> set evs"
  by (rule lookup_not_in_script [of b evs "[]"]) (simp add: assms)

lemma count_evs:
  assumes "script_before b = map fst evs"
  shows "count_list (map fst evs) artifact_call = (if b then 0 else 1)"
  using assms [symmetric] by (simp add: count_script_before)

lemma Tool_raise_noticed:
  assumes "script_before b = map fst evs @ r # post"
  shows "\<not> list_all Tool_event_returned (evs @ [(r, Inl x)])"
proof -
  have "r \<in> set (script_before b)" using assms by simp
  then obtain name kws where "r = Call_Tool name kws"
    using script_before_Tool by blast
  then show ?thesis by simp
qed

lemma raising_call_not_lookup:
  assumes "script_before b = pre @ r # post"
  shows "r \<noteq> Call_getitem key"
proof -
  have "r \<in> set (script_before b)" using assms by simp
  then show ?thesis using script_before_Tool by blast
qed

lemma length_script_before: "length (script_before b) = (if b then 4 else 5)"
  by (simp add: script_before_def dependency_calls_def)

lemma length_evs:
  assumes "script_before b = map fst evs"
  shows "length evs = (if b then 4 else 5)"
proof -
  have "length (map fst evs) = (if b then 4 else 5)"
    unfolding assms [symmetric] by (rule length_script_before)
  then show ?thesis by simp
qed

lemma generate_run_cases [case_names truth_raised Tool_raised lookup_raised registered]:
  obtains
    x where "truth_test (dict_get kw ''depsOnly'' (PInt 0)) = Inl x"
      "generate E kw s = \<lparr>result = Inl x, issued = [], env_after = s\<rparr>"
  | b pre r post x where "truth_test (dict_get kw ''depsOnly'' (PInt 0)) = Inr b"
      "script_before b = pre @ r # post"
      "requests (generate E kw s) = pre @ [r]"
      "result (generate E kw s) = Inl x"
      "last (issued (generate E kw s)) = (r, Inl x)"
      "\<And>y. (Call_getitem ''cfitsioLibs'', y) \<notin> set (issued (generate E kw s))"
      "\<not> no_Tool_raised (generate E kw s)"
      "lookup_replies (generate E kw s) = []"
      "raises (generate E kw s) = replicate (length pre) None @ [Some x]"
      "list_all returned (butlast (issued (generate E kw s)))"
      "\<not> list_all returned (issued (generate E kw s))"
  | b x where "truth_test (dict_get kw ''depsOnly'' (PInt 0)) = Inr b"
      "requests (generate E kw s) = script_before b @ [Call_getitem ''cfitsioLibs'']"
      "result (generate E kw s) = Inl x"
      "last (issued (generate E kw s)) = (Call_getitem ''cfitsioLibs'', Inl x)"
      "\<And>y. (Call_getitem ''cfitsioLibs'', y) \<in> set (issued (generate E kw s)) \<longleftrightarrow> y = Inl x"
      "no_Tool_raised (generate E kw s)"
      "lookup_replies (generate E kw s) = [Inl x]"
      "raises (generate E kw s) = replicate (if b then 4 else 5) None @ [Some x]"
      "list_all returned (butlast (issued (generate E kw s)))"
      "\<not> list_all returned (issued (generate E kw s))"
  | b v r where "truth_test (dict_get kw ''depsOnly'' (PInt 0)) = Inr b"
      "requests (generate E kw s) =
         script_before b @ [Call_getitem ''cfitsioLibs'', third_party_call v]"
      "result (generate E kw s) = (case r of Inl x \<Rightarrow> Inl x | Inr w \<Rightarrow> Inr PNone)"
      "last (issued (generate E kw s)) = (third_party_call v, r)"
      "\<And>y. (Call_getitem ''cfitsioLibs'', y) \<in> set (issued (generate E kw s)) \<longleftrightarrow> y = Inr v"
      "no_Tool_raised (generate E kw s) \<longleftrightarrow> raised r = None"
      "lookup_replies (generate E kw s) = [Inr v]"
      "raises (generate E kw s) =
         replicate (if b then 4 else 5) None @ [None, raised r]"
      "list_all returned (butlast (issued (generate E kw s)))"
      "list_all returned (issued (generate E kw s)) \<longleftrightarrow> raised r = None"
proof (cases rule: generate_cases [of kw E s])
  case (truth_raised x)
  then show ?thesis by (rule that(1))
next
  case (Tool_raised b evs r post x)
  note iss = Tool_raised(4)
  from Tool_raised(1) show ?thesis
  proof (rule that(2))
    show "script_before b = map fst evs @ r # post" by (rule Tool_raised(2))
    show "requests (generate E kw s) = map fst evs @ [r]"
      by (simp add: requests_def iss)
    show "result (generate E kw s) = Inl x" by (rule Tool_raised(5))
    show "last (issued (generate E kw s)) = (r, Inl x)" by (simp add: iss)
    show "(Call_getitem ''cfitsioLibs'', y) \<notin> set (issued (generate E kw s))" for y
      using lookup_in_Tool_raised [OF Tool_raised(2)] by (simp add: iss)
    show "\<not> no_Tool_raised (generate E kw s)"
      using Tool_raise_noticed [OF Tool_raised(2), of x] by (simp add: no_Tool_raised_def iss)
    show "lookup_replies (generate E kw s) = []"
      using raising_call_not_lookup [OF Tool_raised(2), of "''cfitsioLibs''"]
      by (simp add: lookup_replies_def iss no_lookup_filter [OF Tool_raised(2)])
    show "raises (generate E kw s) = replicate (length (map fst evs)) None @ [Some x]"
      by (simp add: raises_def iss returned_raises [OF Tool_raised(3)])
    show "list_all returned (butlast (issued (generate E kw s)))"
      by (simp add: iss Tool_raised(3))
    show "\<not> list_all returned (issued (generate E kw s))"
      by (simp add: iss returned_def)
  qed
next
  case (lookup_raised b evs x)
  note iss = lookup_raised(4)
  have sb: "script_before b = map fst evs @ []" using lookup_raised(2) by simp
  from lookup_raised(1) show ?thesis
  proof (rule that(3))
    show "requests (generate E kw s) = script_before b @ [Call_getitem ''cfitsioLibs'']"
      by (simp add: requests_def iss lookup_raised(2))
    show "result (generate E kw s) = Inl x" by (rule lookup_raised(5))
    show "last (issued (generate E kw s)) = (Call_getitem ''cfitsioLibs'', Inl x)"
      by (simp add: iss)
    show "(Call_getitem ''cfitsioLibs'', y) \<in> set (issued (generate E kw s)) \<longleftrightarrow> y = Inl x" for y
      using lookup_in_lookup_raised [OF lookup_raised(2)] by (simp only: iss)
    show "no_Tool_raised (generate E kw s)"
      by (simp add: no_Tool_raised_def iss returned_Tool_events [OF lookup_raised(3)])
    show "lookup_replies (generate E kw s) = [Inl x]"
      by (simp add: lookup_replies_def iss no_lookup_filter [OF sb])
    show "raises (generate E kw s) =
        replicate (if b then 4 else 5) None @ [Some x]"
      by (simp add: raises_def iss returned_raises [OF lookup_raised(3)]
          length_evs [OF lookup_raised(2)])
    show "list_all returned (butlast (issued (generate E kw s)))"
      by (simp add: iss lookup_raised(3))
    show "\<not> list_all returned (issued (generate E kw s))"
      by (simp add: iss returned_def)
  qed
next
  case (registered b evs v r)
  note iss = registered(4)
  have sb: "script_before b = map fst evs @ []" using registered(2) by simp
  from registered(1) show ?thesis
  proof (rule that(4))
    show "requests (generate E kw s) =
        script_before b @ [Call_getitem ''cfitsioLibs'', third_party_call v]"
      by (simp add: requests_def iss registered(2))
    show "result (generate E kw s) = (case r of Inl x \<Rightarrow> Inl x | Inr w \<Rightarrow> Inr PNone)"
      by (rule registered(5))
    show "last (issued (generate E kw s)) = (third_party_call v, r)"
      by (simp add: iss)
    show "(Call_getitem ''cfitsioLibs'', y) \<in> set (issued (generate E kw s)) \<longleftrightarrow> y = Inr v" for y
      using lookup_in_registered [OF registered(2)] by (simp only: iss)
    show "no_Tool_raised (generate E kw s) \<longleftrightarrow> raised r = None"
      by (simp add: no_Tool_raised_def iss returned_Tool_events [OF registered(3)]
          third_party_call_def)
    show "lookup_replies (generate E kw s) = [Inr v]"
      by (simp add: lookup_replies_def iss no_lookup_filter [OF sb] third_party_call_def)
    show "raises (generate E kw s) =
        replicate (if b then 4 else 5) None @ [None, raised r]"
      by (simp add: raises_def iss returned_raises [OF registered(3)]
          length_evs [OF registered(2)])
    show "list_all returned (butlast (issued (generate E kw s)))"
      by (simp add: iss registered(3) butlast_append returned_def)
    show "list_all returned (issued (generate E kw s)) \<longleftrightarrow> raised r = None"
      by (simp add: iss registered(3) returned_def)
  qed
qed

text \<open>The fourth dependency registration is the last request before the subscript.\<close>

lemma last_script_before: "last (script_before b) = Call_Tool ''st_appLib'' []"
  by (simp add: script_before_def dependency_calls_def)

lemma distinct_script_before: "distinct (script_before b)"
  by (simp add: script_before_def dependency_calls_def artifact_call_def)

lemma fourth_in_script_before: "Call_Tool ''st_appLib'' [] \<in> set (script_before b)"
  by (simp add: script_before_def dependency_calls_def)

lemma fourth_issued_last:
  assumes sb: "script_before b = pre @ r # post"
    and m: "Call_Tool ''st_appLib'' [] \<in> set (pre @ [r])"
  shows "post = []"
proof (rule ccontr)
  assume ne: "post \<noteq> []"
  then have "last (pre @ r # post) = last post" by simp
  with sb have "last post = Call_Tool ''st_appLib'' []"
    using last_script_before [of b, where 'a = 'a] by simp
  with ne have "Call_Tool ''st_appLib'' [] \<in> set post"
    using last_in_set [of post] by simp
  moreover have "distinct ((pre @ [r]) @ post)"
    using distinct_script_before [of b, where 'a = 'a] sb by simp
  ultimately show False using m by auto
qed

section \<open>Like replies give like runs\<close>

lemma like_replies_like_runs:
  assumes T: "truth_test (dict_get kw1 ''depsOnly'' (PInt 0)) =
      truth_test (dict_get kw2 ''depsOnly'' (PInt 0))"
    and R: "raises (generate E1 kw1 s1) = raises (generate E2 kw2 s2)"
    and L: "lookup_replies (generate E1 kw1 s1) = lookup_replies (generate E2 kw2 s2)"
  shows "requests (generate E1 kw1 s1) = requests (generate E2 kw2 s2) \<and>
         raised (result (generate E1 kw1 s1)) = raised (result (generate E2 kw2 s2))"
proof (cases rule: generate_run_cases [of kw1 E1 s1])
  case (truth_raised x)
  with T have "truth_test (dict_get kw2 ''depsOnly'' (PInt 0)) = Inl x" by simp
  then have "generate E2 kw2 s2 = \<lparr>result = Inl x, issued = [], env_after = s2\<rparr>"
    by (rule generate_truth_raised)
  with truth_raised(2) show ?thesis by (simp add: requests_def)
next
  case one: (Tool_raised b pre r post x)
  show ?thesis
  proof (cases rule: generate_run_cases [of kw2 E2 s2])
    case (truth_raised y)
    with T one(1) show ?thesis by simp
  next
    case two: (Tool_raised b' pre' r' post' x')
    from T one(1) two(1) have b: "b' = b" by simp
    from R one(9) two(9) have "length (replicate (length pre) (None :: 'a option) @ [Some x]) =
        length (replicate (length pre') (None :: 'a option) @ [Some x'])"
      by simp
    then have len: "length pre = length pre'" by simp
    with R one(9) two(9) have x: "x' = x" by simp
    from one(2) two(2) b have "pre @ r # post = pre' @ r' # post'" by simp
    with len have "pre = pre'" "r = r'" by simp_all
    with one(3,4) two(3,4) x show ?thesis by simp
  next
    case (lookup_raised b' x')
    with L one(8) show ?thesis by simp
  next
    case (registered b' v' r')
    with L one(8) show ?thesis by simp
  qed
next
  case one: (lookup_raised b x)
  show ?thesis
  proof (cases rule: generate_run_cases [of kw2 E2 s2])
    case (truth_raised y)
    with T one(1) show ?thesis by simp
  next
    case (Tool_raised b' pre' r' post' x')
    with L one(7) show ?thesis by simp
  next
    case two: (lookup_raised b' x')
    from T one(1) two(1) have b: "b' = b" by simp
    from L one(7) two(7) have "x' = x" by simp
    with one(2,3) two(2,3) b show ?thesis by simp
  next
    case (registered b' v' r')
    with L one(7) show ?thesis by simp
  qed
next
  case one: (registered b v r)
  show ?thesis
  proof (cases rule: generate_run_cases [of kw2 E2 s2])
    case (truth_raised y)
    with T one(1) show ?thesis by simp
  next
    case (Tool_raised b' pre' r' post' x')
    with L one(7) show ?thesis by simp
  next
    case (lookup_raised b' x')
    with L one(7) show ?thesis by simp
  next
    case two: (registered b' v' r')
    from T one(1) two(1) have b: "b' = b" by simp
    from L one(7) two(7) have v: "v' = v" by simp
    from R one(8) two(8) b have "raised r' = raised r" by simp
    with one(2,3) two(2,3) b v show ?thesis
      by (cases r; cases r') simp_all
  qed
qed

section \<open>Concrete runs\<close>

lemma andThen_prepend:
  "andThen p f s =
     (case result (p s) of
        Inl x \<Rightarrow> \<lparr>result = Inl x, issued = issued (p s), env_after = env_after (p s)\<rparr>
      | Inr a \<Rightarrow> prepend (issued (p s)) (f a (env_after (p s))))"
  by (simp add: andThen_def prepend_def split: sum.splits)

lemma prepend_record:
  "prepend evs \<lparr>result = r, issued = i, env_after = e\<rparr> = \<lparr>result = r, issued = evs @ i, env_after = e\<rparr>"
  by (simp add: prepend_def)

lemmas run_eval = generate_def andThen_prepend prepend_record
  call_Tool_def call_getitem_def test_truth_def ret_def
  recorder_def unresolved_def variables_def load_once_def
  no_options_def falsy_options_def deps_only_def untestable_options_def
  empty_config_def cfitsio_config_def clash_config_def dict_get_def

lemma run_recorder_cfitsio:
  "generate (recorder cfitsio_config) no_options [] =
     \<lparr>result = Inr PNone,
      issued =
        [(Call_Tool ''addLibrary'' [(''library'', PList [PStr ''timeSystem''])], Inr PNone),
         (Call_Tool ''st_facilitiesLib'' [], Inr PNone),
         (Call_Tool ''st_streamLib'' [], Inr PNone),
         (Call_Tool ''tipLib'' [], Inr PNone),
         (Call_Tool ''st_appLib'' [], Inr PNone),
         (Call_getitem ''cfitsioLibs'', Inr (PList [PStr ''cfitsio''])),
         (Call_Tool ''addLibrary'' [(''library'', PList [PStr ''cfitsio''])], Inr PNone)],
      env_after =
        [Call_Tool ''addLibrary'' [(''library'', PList [PStr ''timeSystem''])],
         Call_Tool ''st_facilitiesLib'' [], Call_Tool ''st_streamLib'' [],
         Call_Tool ''tipLib'' [], Call_Tool ''st_appLib'' [],
         Call_Tool ''addLibrary'' [(''library'', PList [PStr ''cfitsio''])]]\<rparr>"
  by (simp add: run_eval)

lemma run_recorder_cfitsio_deps_only:
  "generate (recorder cfitsio_config) deps_only [] =
     \<lparr>result = Inr PNone,
      issued =
        [(Call_Tool ''st_facilitiesLib'' [], Inr PNone),
         (Call_Tool ''st_streamLib'' [], Inr PNone),
         (Call_Tool ''tipLib'' [], Inr PNone),
         (Call_Tool ''st_appLib'' [], Inr PNone),
         (Call_getitem ''cfitsioLibs'', Inr (PList [PStr ''cfitsio''])),
         (Call_Tool ''addLibrary'' [(''library'', PList [PStr ''cfitsio''])], Inr PNone)],
      env_after =
        [Call_Tool ''st_facilitiesLib'' [], Call_Tool ''st_streamLib'' [],
         Call_Tool ''tipLib'' [], Call_Tool ''st_appLib'' [],
         Call_Tool ''addLibrary'' [(''library'', PList [PStr ''cfitsio''])]]\<rparr>"
  by (simp add: run_eval)

lemma run_recorder_empty:
  "generate (recorder empty_config) no_options [] =
     \<lparr>result = Inl (KeyError ''cfitsioLibs''),
      issued =
        [(Call_Tool ''addLibrary'' [(''library'', PList [PStr ''timeSystem''])], Inr PNone),
         (Call_Tool ''st_facilitiesLib'' [], Inr PNone),
         (Call_Tool ''st_streamLib'' [], Inr PNone),
         (Call_Tool ''tipLib'' [], Inr PNone),
         (Call_Tool ''st_appLib'' [], Inr PNone),
         (Call_getitem ''cfitsioLibs'', Inl (KeyError ''cfitsioLibs''))],
      env_after =
        [Call_Tool ''addLibrary'' [(''library'', PList [PStr ''timeSystem''])],
         Call_Tool ''st_facilitiesLib'' [], Call_Tool ''st_streamLib'' [],
         Call_Tool ''tipLib'' [], Call_Tool ''st_appLib'' []]\<rparr>"
  by (simp add: run_eval)

lemma run_recorder_empty_deps_only:
  "generate (recorder empty_config) deps_only [] =
     \<lparr>result = Inl (KeyError ''cfitsioLibs''),
      issued =
        [(Call_Tool ''st_facilitiesLib'' [], Inr PNone),
         (Call_Tool ''st_streamLib'' [], Inr PNone),
         (Call_Tool ''tipLib'' [], Inr PNone),
         (Call_Tool ''st_appLib'' [], Inr PNone),
         (Call_getitem ''cfitsioLibs'', Inl (KeyError ''cfitsioLibs''))],
      env_after =
        [Call_Tool ''st_facilitiesLib'' [], Call_Tool ''st_streamLib'' [],
         Call_Tool ''tipLib'' [], Call_Tool ''st_appLib'' []]\<rparr>"
  by (simp add: run_eval)

lemma run_recorder_clash:
  "generate (recorder clash_config) no_options [] =
     \<lparr>result = Inr PNone,
      issued =
        [(Call_Tool ''addLibrary'' [(''library'', PList [PStr ''timeSystem''])], Inr PNone),
         (Call_Tool ''st_facilitiesLib'' [], Inr PNone),
         (Call_Tool ''st_streamLib'' [], Inr PNone),
         (Call_Tool ''tipLib'' [], Inr PNone),
         (Call_Tool ''st_appLib'' [], Inr PNone),
         (Call_getitem ''cfitsioLibs'', Inr (PList [PStr ''timeSystem''])),
         (Call_Tool ''addLibrary'' [(''library'', PList [PStr ''timeSystem''])], Inr PNone)],
      env_after =
        [Call_Tool ''addLibrary'' [(''library'', PList [PStr ''timeSystem''])],
         Call_Tool ''st_facilitiesLib'' [], Call_Tool ''st_streamLib'' [],
         Call_Tool ''tipLib'' [], Call_Tool ''st_appLib'' [],
         Call_Tool ''addLibrary'' [(''library'', PList [PStr ''timeSystem''])]]\<rparr>"
  by (simp add: run_eval)

lemma run_recorder_clash_deps_only:
  "generate (recorder clash_config) deps_only [] =
     \<lparr>result = Inr PNone,
      issued =
        [(Call_Tool ''st_facilitiesLib'' [], Inr PNone),
         (Call_Tool ''st_streamLib'' [], Inr PNone),
         (Call_Tool ''tipLib'' [], Inr PNone),
         (Call_Tool ''st_appLib'' [], Inr PNone),
         (Call_getitem ''cfitsioLibs'', Inr (PList [PStr ''timeSystem''])),
         (Call_Tool ''addLibrary'' [(''library'', PList [PStr ''timeSystem''])], Inr PNone)],
      env_after =
        [Call_Tool ''st_facilitiesLib'' [], Call_Tool ''st_streamLib'' [],
         Call_Tool ''tipLib'' [], Call_Tool ''st_appLib'' [],
         Call_Tool ''addLibrary'' [(''library'', PList [PStr ''timeSystem''])]]\<rparr>"
  by (simp add: run_eval)

lemma run_unresolved:
  "generate (unresolved ''st_streamLib'' cfitsio_config) no_options [] =
     \<lparr>result = Inl (UserError ''st_streamLib''),
      issued =
        [(Call_Tool ''addLibrary'' [(''library'', PList [PStr ''timeSystem''])], Inr PNone),
         (Call_Tool ''st_facilitiesLib'' [], Inr PNone),
         (Call_Tool ''st_streamLib'' [], Inl (UserError ''st_streamLib''))],
      env_after =
        [Call_Tool ''addLibrary'' [(''library'', PList [PStr ''timeSystem''])],
         Call_Tool ''st_facilitiesLib'' []]\<rparr>"
  by (simp add: run_eval)



lemma run_unresolved_nope:
  "generate (unresolved ''nope'' cfitsio_config) falsy_options [] =
     \<lparr>result = Inr PNone,
      issued =
        [(Call_Tool ''addLibrary'' [(''library'', PList [PStr ''timeSystem''])], Inr PNone),
         (Call_Tool ''st_facilitiesLib'' [], Inr PNone),
         (Call_Tool ''st_streamLib'' [], Inr PNone),
         (Call_Tool ''tipLib'' [], Inr PNone),
         (Call_Tool ''st_appLib'' [], Inr PNone),
         (Call_getitem ''cfitsioLibs'', Inr (PList [PStr ''cfitsio''])),
         (Call_Tool ''addLibrary'' [(''library'', PList [PStr ''cfitsio''])], Inr PNone)],
      env_after =
        [Call_Tool ''addLibrary'' [(''library'', PList [PStr ''timeSystem''])],
         Call_Tool ''st_facilitiesLib'' [], Call_Tool ''st_streamLib'' [],
         Call_Tool ''tipLib'' [], Call_Tool ''st_appLib'' [],
         Call_Tool ''addLibrary'' [(''library'', PList [PStr ''cfitsio''])]]\<rparr>"
  by (simp add: run_eval)

lemma run_untestable:
  "generate (recorder cfitsio_config) untestable_options [] =
     \<lparr>result = Inl (ValueError ''truth value is ambiguous''), issued = [], env_after = []\<rparr>"
  by (simp add: run_eval)


lemma run_variables_empty:
  "generate variables no_options empty_config =
     \<lparr>result = Inl (KeyError ''cfitsioLibs''),
      issued =
        [(Call_Tool ''addLibrary'' [(''library'', PList [PStr ''timeSystem''])], Inr PNone),
         (Call_Tool ''st_facilitiesLib'' [], Inr PNone),
         (Call_Tool ''st_streamLib'' [], Inr PNone),
         (Call_Tool ''tipLib'' [], Inr PNone),
         (Call_Tool ''st_appLib'' [], Inr PNone),
         (Call_getitem ''cfitsioLibs'', Inl (KeyError ''cfitsioLibs''))],
      env_after = empty_config\<rparr>"
  by (simp add: run_eval)

section \<open>The claims\<close>

text \<open>
  Claim C1, as amended. In every invocation the dependency registrations that
  \<^verbatim>\<open>generate\<close> issues are an initial segment of the fixed order facilities, stream,
  toolkit, application framework; when the truth test of \<^verbatim>\<open>depsOnly\<close> does not raise
  and no \<^verbatim>\<open>Tool\<close> call of the invocation raises, they are exactly these four, in
  this order. In general they are exactly these four if and only if the fourth one is
  issued, that is, unless the truth test or a call before the fourth raises.
\<close>

theorem generate_dependency_calls:
  "prefix (dependencies_issued (generate E kw s)) dependency_calls \<and>
   (raised (truth_test (dict_get kw ''depsOnly'' (PInt 0))) = None \<and>
    no_Tool_raised (generate E kw s) \<longrightarrow>
      dependencies_issued (generate E kw s) = dependency_calls) \<and>
   (dependencies_issued (generate E kw s) = dependency_calls \<longleftrightarrow>
      Call_Tool ''st_appLib'' [] \<in> set (requests (generate E kw s)))"
proof (cases rule: generate_run_cases [of kw E s])
  case (truth_raised x)
  then show ?thesis
    by (simp add: dependencies_issued_def requests_def dependency_calls_def)
next
  case (Tool_raised b pre r post x)
  let ?P = "\<lambda>r. r \<in> set dependency_calls"
  have "filter ?P (pre @ r # post) = filter ?P (pre @ [r]) @ filter ?P post"
    by simp
  moreover have "filter ?P (pre @ r # post) = dependency_calls"
    using Tool_raised(2) [symmetric] by (simp add: filter_script_before)
  ultimately have split: "dependency_calls = filter ?P (pre @ [r]) @ filter ?P post"
    by (simp only:)
  then have pre: "prefix (filter ?P (pre @ [r])) dependency_calls"
    by (rule prefixI)
  have "filter ?P (pre @ [r]) = dependency_calls \<longleftrightarrow>
      Call_Tool ''st_appLib'' [] \<in> set (pre @ [r])"
  proof
    assume "filter ?P (pre @ [r]) = dependency_calls"
    then have "Call_Tool ''st_appLib'' [] \<in> set (filter ?P (pre @ [r]))"
      by (simp add: dependency_calls_def)
    then show "Call_Tool ''st_appLib'' [] \<in> set (pre @ [r])"
      by (simp only: set_filter) blast
  next
    assume "Call_Tool ''st_appLib'' [] \<in> set (pre @ [r])"
    with Tool_raised(2) have "post = []" by (rule fourth_issued_last)
    with split show "filter ?P (pre @ [r]) = dependency_calls" by simp
  qed
  with pre Tool_raised(3,7) show ?thesis
    by (simp only: dependencies_issued_def) simp
next
  case (lookup_raised b x)
  then show ?thesis
    by (simp add: dependencies_issued_def lookup_not_dependency filter_script_before
        fourth_in_script_before)
next
  case (registered b v r)
  then show ?thesis
    by (simp add: dependencies_issued_def lookup_not_dependency third_party_not_dependency
        filter_script_before fourth_in_script_before)
qed

theorem generate_dependency_calls_witness:
  "raised (truth_test (dict_get falsy_options ''depsOnly'' (PInt 0))) = None \<and>
   no_Tool_raised (generate (unresolved ''nope'' cfitsio_config) falsy_options []) \<and>
   dependencies_issued (generate (unresolved ''nope'' cfitsio_config) falsy_options []) =
     dependency_calls"
proof -
  have "raised (truth_test (dict_get falsy_options ''depsOnly'' (PInt 0))) = None"
    by (simp add: falsy_options_def dict_get_def)
  moreover have "no_Tool_raised (generate (unresolved ''nope'' cfitsio_config) falsy_options [])"
    by (simp add: run_unresolved_nope no_Tool_raised_def)
  ultimately show ?thesis
    using generate_dependency_calls [of "unresolved ''nope'' cfitsio_config" falsy_options "[]"]
    by simp
qed

text \<open>
  The claim as stated fails where a tool cannot be resolved (the third and the fourth
  dependency registration are never issued) and where the truth test of \<^verbatim>\<open>depsOnly\<close>
  raises (nothing is issued).
\<close>

theorem generate_dependency_calls_counterexample:
  "dependencies_issued (generate (unresolved ''st_streamLib'' cfitsio_config) no_options []) =
     [Call_Tool ''st_facilitiesLib'' [], Call_Tool ''st_streamLib'' []] \<and>
   dependencies_issued (generate (unresolved ''st_streamLib'' cfitsio_config) no_options []) \<noteq>
     dependency_calls \<and>
   dependencies_issued (generate (recorder cfitsio_config) untestable_options []) = []"
  by (simp add: run_unresolved run_untestable dependencies_issued_def requests_def
      dependency_calls_def)

text \<open>
  Claim C2, as amended. When \<^verbatim>\<open>depsOnly\<close> is absent or falsy, the registration
  of \<^verbatim>\<open>['timeSystem']\<close> occurs exactly once in the whole sequence of requests,
  unless the subscript \<^verbatim>\<open>env['cfitsioLibs']\<close> is reached and returns
  \<^verbatim>\<open>['timeSystem']\<close> itself: then the last call repeats it and it occurs twice.
\<close>

theorem generate_artifact_once:
  assumes "truth_test (dict_get kw ''depsOnly'' (PInt 0)) = Inr False"
  shows "times_issued artifact_call (generate E kw s) =
     (if (Call_getitem ''cfitsioLibs'', Inr (PList [PStr ''timeSystem'']))
           \<in> set (issued (generate E kw s))
      then 2 else 1)"
proof (cases rule: generate_cases [of kw E s])
  case (truth_raised x)
  with assms show ?thesis by simp
next
  case (Tool_raised b evs r post x)
  have req: "requests (generate E kw s) = map fst evs @ [r]"
    using Tool_raised(4) by (simp add: requests_def)
  have "times_issued artifact_call (generate E kw s) = (if b then 0 else 1)"
    unfolding times_issued_def req by (rule count_before_raise [OF Tool_raised(2)])
  moreover have "(Call_getitem ''cfitsioLibs'', y) \<notin> set (issued (generate E kw s))" for y
    using lookup_in_Tool_raised [OF Tool_raised(2)] Tool_raised(4) by simp
  ultimately show ?thesis
    using assms Tool_raised(1) by simp
next
  case (lookup_raised b evs x)
  with assms show ?thesis
    by (simp add: times_issued_def requests_def lookup_distinct count_evs lookup_not_in_evs)
next
  case (registered b evs v r)
  with assms third_party_is_artifact [of v] show ?thesis
    by (simp add: times_issued_def requests_def lookup_distinct count_evs lookup_not_in_evs)
qed

theorem generate_artifact_once_witness:
  "truth_test (dict_get no_options ''depsOnly'' (PInt 0)) = Inr False \<and>
   times_issued artifact_call (generate (recorder cfitsio_config) no_options []) = 1"
proof -
  have "truth_test (dict_get no_options ''depsOnly'' (PInt 0)) = Inr False"
    by (simp add: no_options_def dict_get_def)
  moreover have "(Call_getitem ''cfitsioLibs'', Inr (PList [PStr ''timeSystem'']))
      \<notin> set (issued (generate (recorder cfitsio_config) no_options []))"
    by (simp add: run_recorder_cfitsio)
  ultimately show ?thesis
    using generate_artifact_once [of no_options "recorder cfitsio_config" "[]"]
    by simp
qed

text \<open>
  The claim as stated fails where \<^verbatim>\<open>cfitsioLibs\<close> is itself bound to
  \<^verbatim>\<open>['timeSystem']\<close>: the registration occurs twice.
\<close>

theorem generate_artifact_once_counterexample:
  "truth_test (dict_get no_options ''depsOnly'' (PInt 0)) = Inr False \<and>
   times_issued artifact_call (generate (recorder clash_config) no_options []) = 2"
proof -
  have "truth_test (dict_get no_options ''depsOnly'' (PInt 0)) = Inr False"
    by (simp add: no_options_def dict_get_def)
  moreover have "times_issued artifact_call (generate (recorder clash_config) no_options []) = 2"
    by (simp add: run_recorder_clash times_issued_def requests_def artifact_call_def)
  ultimately show ?thesis by simp
qed

text \<open>
  Claim C3, as amended. When \<^verbatim>\<open>depsOnly\<close> is truthy, the registration of
  \<^verbatim>\<open>['timeSystem']\<close> does not occur, unless \<^verbatim>\<open>env['cfitsioLibs']\<close> is reached
  and returns \<^verbatim>\<open>['timeSystem']\<close> (then it occurs once, as the last call). Whenever
  the subscript returns a value \<open>v\<close> in the invocation, the requests are the four
  dependency registrations, the subscript, and the registration of \<open>v\<close>. The subscript
  is reached when no \<^verbatim>\<open>Tool\<close> call of the invocation raises, and it has returned when
  no request of the invocation raises.
\<close>

theorem generate_depsOnly:
  assumes "truth_test (dict_get kw ''depsOnly'' (PInt 0)) = Inr True"
  shows "times_issued artifact_call (generate E kw s) =
     (if (Call_getitem ''cfitsioLibs'', Inr (PList [PStr ''timeSystem'']))
           \<in> set (issued (generate E kw s))
      then 1 else 0) \<and>
     ((Call_getitem ''cfitsioLibs'', Inr v) \<in> set (issued (generate E kw s)) \<longrightarrow>
        requests (generate E kw s) =
          dependency_calls @ [Call_getitem ''cfitsioLibs'', third_party_call v]) \<and>
     (no_Tool_raised (generate E kw s) \<longrightarrow>
        (\<exists>y. (Call_getitem ''cfitsioLibs'', y) \<in> set (issued (generate E kw s)))) \<and>
     (list_all returned (issued (generate E kw s)) \<longrightarrow>
        (\<exists>w. (Call_getitem ''cfitsioLibs'', Inr w) \<in> set (issued (generate E kw s))))"
proof (cases rule: generate_run_cases [of kw E s])
  case (truth_raised x)
  with assms show ?thesis by simp
next
  case (Tool_raised b pre r post x)
  with assms count_before_raise [of b pre r post] show ?thesis
    by (simp add: times_issued_def)
next
  case (lookup_raised b x)
  with assms show ?thesis
    by (simp add: times_issued_def count_script_before lookup_distinct)
next
  case (registered b v' r)
  with assms third_party_is_artifact [of v'] show ?thesis
    by (simp add: times_issued_def lookup_distinct script_before_def count_dependency_calls
        artifact_not_dependency)
qed

theorem generate_depsOnly_witness:
  "truth_test (dict_get deps_only ''depsOnly'' (PInt 0)) = Inr True \<and>
   no_Tool_raised (generate (recorder cfitsio_config) deps_only []) \<and>
   list_all returned (issued (generate (recorder cfitsio_config) deps_only [])) \<and>
   (Call_getitem ''cfitsioLibs'', Inr (PList [PStr ''cfitsio'']))
     \<in> set (issued (generate (recorder cfitsio_config) deps_only [])) \<and>
   times_issued artifact_call (generate (recorder cfitsio_config) deps_only []) = 0 \<and>
   requests (generate (recorder cfitsio_config) deps_only []) =
     dependency_calls @ [Call_getitem ''cfitsioLibs'', third_party_call (PList [PStr ''cfitsio''])]"
proof -
  have "truth_test (dict_get deps_only ''depsOnly'' (PInt 0)) = Inr True"
    by (simp add: deps_only_def dict_get_def)
  moreover have "no_Tool_raised (generate (recorder cfitsio_config) deps_only [])"
    and "list_all returned (issued (generate (recorder cfitsio_config) deps_only []))"
    and "(Call_getitem ''cfitsioLibs'', Inr (PList [PStr ''cfitsio'']))
      \<in> set (issued (generate (recorder cfitsio_config) deps_only []))"
    and "(Call_getitem ''cfitsioLibs'', Inr (PList [PStr ''timeSystem'']))
      \<notin> set (issued (generate (recorder cfitsio_config) deps_only []))"
    by (simp_all add: run_recorder_cfitsio_deps_only no_Tool_raised_def returned_def)
  ultimately show ?thesis
    using generate_depsOnly [of deps_only "recorder cfitsio_config" "[]" "PList [PStr ''cfitsio'']"]
    by simp
qed

text \<open>
  The claim as stated fails where the environment lacks \<^verbatim>\<open>cfitsioLibs\<close> (no third-party
  registration is issued) and where \<^verbatim>\<open>cfitsioLibs\<close> is bound to \<^verbatim>\<open>['timeSystem']\<close>
  (a registration of \<^verbatim>\<open>['timeSystem']\<close> is issued).
\<close>

theorem generate_depsOnly_counterexample:
  "truth_test (dict_get deps_only ''depsOnly'' (PInt 0)) = Inr True \<and>
   requests (generate (recorder empty_config) deps_only []) =
     dependency_calls @ [Call_getitem ''cfitsioLibs''] \<and>
   times_issued artifact_call (generate (recorder clash_config) deps_only []) = 1"
proof -
  have "truth_test (dict_get deps_only ''depsOnly'' (PInt 0)) = Inr True"
    by (simp add: deps_only_def dict_get_def)
  moreover have "requests (generate (recorder empty_config) deps_only []) =
     dependency_calls @ [Call_getitem ''cfitsioLibs'']"
    by (simp add: run_recorder_empty_deps_only requests_def dependency_calls_def)
  moreover have "times_issued artifact_call (generate (recorder clash_config) deps_only []) = 1"
    by (simp add: run_recorder_clash_deps_only times_issued_def requests_def artifact_call_def)
  ultimately show ?thesis by simp
qed

text \<open>
  Claim C4, as amended. Whenever \<^verbatim>\<open>generate\<close> reaches the subscript
  \<^verbatim>\<open>env['cfitsioLibs']\<close> and it returns \<open>v\<close>, the last request is the registration
  of \<open>v\<close>, and this registration occurs once in the sequence, except that it occurs
  twice when \<^verbatim>\<open>depsOnly\<close> is absent or falsy and \<open>v\<close> is \<^verbatim>\<open>['timeSystem']\<close>.
  The subscript is reached when the truth test of \<^verbatim>\<open>depsOnly\<close> does not raise and no
  \<^verbatim>\<open>Tool\<close> call of the invocation raises, and it has returned when moreover no
  request of the invocation raises.
\<close>

theorem generate_third_party_call:
  "((Call_getitem ''cfitsioLibs'', Inr v) \<in> set (issued (generate E kw s)) \<longrightarrow>
      last (requests (generate E kw s)) = third_party_call v \<and>
      times_issued (third_party_call v) (generate E kw s) =
        (if truth_test (dict_get kw ''depsOnly'' (PInt 0)) = Inr False \<and>
            v = PList [PStr ''timeSystem'']
         then 2 else 1)) \<and>
   (raised (truth_test (dict_get kw ''depsOnly'' (PInt 0))) = None \<and>
    no_Tool_raised (generate E kw s) \<longrightarrow>
      (\<exists>y. (Call_getitem ''cfitsioLibs'', y) \<in> set (issued (generate E kw s)))) \<and>
   (raised (truth_test (dict_get kw ''depsOnly'' (PInt 0))) = None \<and>
    list_all returned (issued (generate E kw s)) \<longrightarrow>
      (\<exists>w. (Call_getitem ''cfitsioLibs'', Inr w) \<in> set (issued (generate E kw s))))"
proof (cases rule: generate_run_cases [of kw E s])
  case (truth_raised x)
  then show ?thesis by simp
next
  case (Tool_raised b pre r post x)
  then show ?thesis by simp
next
  case (lookup_raised b x)
  then show ?thesis by simp
next
  case (registered b v' r)
  have cnt: "count_list (script_before b) (third_party_call v') =
      (if \<not> b \<and> v' = PList [PStr ''timeSystem''] then 1 else 0)"
    using third_party_is_artifact [of v']
    by (auto simp: script_before_def count_dependency_calls third_party_not_dependency)
  from registered cnt show ?thesis
    by (simp add: times_issued_def lookup_distinct)
qed

theorem generate_third_party_call_witness:
  "raised (truth_test (dict_get no_options ''depsOnly'' (PInt 0))) = None \<and>
   no_Tool_raised (generate (recorder cfitsio_config) no_options []) \<and>
   list_all returned (issued (generate (recorder cfitsio_config) no_options [])) \<and>
   (Call_getitem ''cfitsioLibs'', Inr (PList [PStr ''cfitsio'']))
     \<in> set (issued (generate (recorder cfitsio_config) no_options [])) \<and>
   last (requests (generate (recorder cfitsio_config) no_options [])) =
     third_party_call (PList [PStr ''cfitsio'']) \<and>
   times_issued (third_party_call (PList [PStr ''cfitsio'']))
     (generate (recorder cfitsio_config) no_options []) = 1"
proof -
  have "raised (truth_test (dict_get no_options ''depsOnly'' (PInt 0))) = None"
    by (simp add: no_options_def dict_get_def)
  moreover have "no_Tool_raised (generate (recorder cfitsio_config) no_options [])"
    and "list_all returned (issued (generate (recorder cfitsio_config) no_options []))"
    and "(Call_getitem ''cfitsioLibs'', Inr (PList [PStr ''cfitsio'']))
      \<in> set (issued (generate (recorder cfitsio_config) no_options []))"
    by (simp_all add: run_recorder_cfitsio no_Tool_raised_def returned_def)
  ultimately show ?thesis
    using generate_third_party_call
      [of "PList [PStr ''cfitsio'']" "recorder cfitsio_config" no_options "[]"]
    by simp
qed

text \<open>
  The claim as stated fails in two environments that bind \<^verbatim>\<open>cfitsioLibs\<close>: where it
  is bound to \<^verbatim>\<open>['timeSystem']\<close> two calls carry that list, and where a tool cannot be
  resolved no call carries the bound list.
\<close>

theorem generate_third_party_call_counterexample:
  "fst (getitem (recorder clash_config) ''cfitsioLibs'' []) = Inr (PList [PStr ''timeSystem'']) \<and>
   times_issued (third_party_call (PList [PStr ''timeSystem'']))
     (generate (recorder clash_config) no_options []) = 2 \<and>
   fst (getitem (unresolved ''st_streamLib'' cfitsio_config) ''cfitsioLibs'' []) =
     Inr (PList [PStr ''cfitsio'']) \<and>
   times_issued (third_party_call (PList [PStr ''cfitsio'']))
     (generate (unresolved ''st_streamLib'' cfitsio_config) no_options []) = 0"
proof -
  have "fst (getitem (recorder clash_config) ''cfitsioLibs'' []) =
      Inr (PList [PStr ''timeSystem''])"
    by (simp add: recorder_def clash_config_def)
  moreover have "times_issued (third_party_call (PList [PStr ''timeSystem'']))
     (generate (recorder clash_config) no_options []) = 2"
    by (simp add: run_recorder_clash times_issued_def requests_def third_party_call_def)
  moreover have "fst (getitem (unresolved ''st_streamLib'' cfitsio_config) ''cfitsioLibs'' []) =
     Inr (PList [PStr ''cfitsio''])"
    by (simp add: unresolved_def cfitsio_config_def)
  moreover have "times_issued (third_party_call (PList [PStr ''cfitsio'']))
     (generate (unresolved ''st_streamLib'' cfitsio_config) no_options []) = 0"
    by (simp add: run_unresolved times_issued_def requests_def third_party_call_def)
  ultimately show ?thesis by simp
qed

text \<open>
  Claim C5. For every environment and every state of it, \<^verbatim>\<open>exists\<close> returns
  \<^verbatim>\<open>1\<close>, which is truthy, issues no request and leaves the environment as it was.
\<close>

theorem exists_constant:
  "result (exists E s) = Inr (PInt 1) \<and> truth_test (PInt 1) = Inr True \<and>
   issued (exists E s) = [] \<and> env_after (exists E s) = s"
  by (simp add: exists_def ret_def)

theorem exists_constant_witness:
  "result (exists (recorder empty_config) []) = Inr (PInt 1) \<and>
   issued (exists (recorder empty_config) []) = [] \<and>
   env_after (exists (recorder empty_config) []) = []"
  using exists_constant [of "recorder empty_config" "[]"] by simp

text \<open>
  Claim C6, as amended. \<^verbatim>\<open>generate\<close> raises \<open>x\<close> exactly when the truth test of
  \<^verbatim>\<open>depsOnly\<close> raises \<open>x\<close> or a request it issued raised \<open>x\<close>. In the first case
  nothing has been asked of the environment; in the second the request is the last one
  issued. Every request before the last returned. So an exception is never caught,
  replaced or retried.
\<close>

theorem generate_propagates:
  "(result (generate E kw s) = Inl x \<longleftrightarrow>
      truth_test (dict_get kw ''depsOnly'' (PInt 0)) = Inl x \<or>
      (\<exists>r. (r, Inl x) \<in> set (issued (generate E kw s)))) \<and>
   (truth_test (dict_get kw ''depsOnly'' (PInt 0)) = Inl x \<longrightarrow>
      issued (generate E kw s) = []) \<and>
   ((\<exists>r. (r, Inl x) \<in> set (issued (generate E kw s))) \<longrightarrow>
      snd (last (issued (generate E kw s))) = Inl x) \<and>
   list_all returned (butlast (issued (generate E kw s)))"
proof (cases rule: generate_cases [of kw E s])
  case (truth_raised y)
  then show ?thesis by auto
next
  case (Tool_raised b evs r post y)
  then show ?thesis
    using returned_not_raised [of evs] by auto
next
  case (lookup_raised b evs y)
  then show ?thesis
    using returned_not_raised [of evs] by auto
next
  case (registered b evs v r)
  then show ?thesis
    using returned_not_raised [of evs]
    by (cases r) (auto simp: returned_def butlast_append)
qed

theorem generate_propagates_witness:
  "result (generate (recorder empty_config) no_options []) = Inl (KeyError ''cfitsioLibs'') \<and>
   (Call_getitem ''cfitsioLibs'', Inl (KeyError ''cfitsioLibs''))
     \<in> set (issued (generate (recorder empty_config) no_options [])) \<and>
   snd (last (issued (generate (recorder empty_config) no_options []))) =
     Inl (KeyError ''cfitsioLibs'') \<and>
   list_all returned (butlast (issued (generate (recorder empty_config) no_options [])))"
proof -
  have "(Call_getitem ''cfitsioLibs'', Inl (KeyError ''cfitsioLibs''))
     \<in> set (issued (generate (recorder empty_config) no_options []))"
    by (simp add: run_recorder_empty)
  then show ?thesis
    using generate_propagates
      [of "recorder empty_config" no_options "[]" "KeyError ''cfitsioLibs''"]
    by blast
qed

text \<open>
  The claim as stated fails where the truth test of \<^verbatim>\<open>depsOnly\<close> raises:
  \<^verbatim>\<open>generate\<close> raises although it has asked nothing of the environment.
\<close>

theorem generate_propagates_counterexample:
  "result (generate (recorder cfitsio_config) untestable_options []) =
     Inl (ValueError ''truth value is ambiguous'') \<and>
   issued (generate (recorder cfitsio_config) untestable_options []) = []"
  by (simp add: run_untestable)




text \<open>
  Claim C8, as amended. The requests \<^verbatim>\<open>generate\<close> issues, and the way it ends, are
  determined by the outcome of the truth test of \<^verbatim>\<open>depsOnly\<close> and by the replies of
  the environment in the invocation (which request raises, if any, and the reply to
  \<^verbatim>\<open>env['cfitsioLibs']\<close>): two invocations for which these are equal, in any two
  environments and states, issue the same requests.
\<close>

theorem generate_determined:
  assumes "truth_test (dict_get kw1 ''depsOnly'' (PInt 0)) =
      truth_test (dict_get kw2 ''depsOnly'' (PInt 0))"
    and "raises (generate E1 kw1 s1) = raises (generate E2 kw2 s2)"
    and "lookup_replies (generate E1 kw1 s1) = lookup_replies (generate E2 kw2 s2)"
  shows "requests (generate E1 kw1 s1) = requests (generate E2 kw2 s2) \<and>
         raised (result (generate E1 kw1 s1)) = raised (result (generate E2 kw2 s2))"
  using assms by (rule like_replies_like_runs)

theorem generate_determined_witness:
  "truth_test (dict_get no_options ''depsOnly'' (PInt 0)) =
     truth_test (dict_get falsy_options ''depsOnly'' (PInt 0)) \<and>
   raises (generate (recorder cfitsio_config) no_options []) =
     raises (generate (unresolved ''nope'' cfitsio_config) falsy_options []) \<and>
   lookup_replies (generate (recorder cfitsio_config) no_options []) =
     lookup_replies (generate (unresolved ''nope'' cfitsio_config) falsy_options []) \<and>
   requests (generate (recorder cfitsio_config) no_options []) =
     requests (generate (unresolved ''nope'' cfitsio_config) falsy_options [])"
proof -
  have "truth_test (dict_get no_options ''depsOnly'' (PInt 0)) =
     truth_test (dict_get falsy_options ''depsOnly'' (PInt 0))"
    by (simp add: no_options_def falsy_options_def dict_get_def)
  moreover have "raises (generate (recorder cfitsio_config) no_options []) =
     raises (generate (unresolved ''nope'' cfitsio_config) falsy_options [])"
    and "lookup_replies (generate (recorder cfitsio_config) no_options []) =
     lookup_replies (generate (unresolved ''nope'' cfitsio_config) falsy_options [])"
    by (simp_all add: run_recorder_cfitsio run_unresolved_nope raises_def lookup_replies_def)
  ultimately show ?thesis
    using generate_determined [of no_options falsy_options "recorder cfitsio_config" "[]"
        "unresolved ''nope'' cfitsio_config" "[]"]
    by simp
qed

text \<open>
  The claim as stated fails for two environments with the same options and the same
  binding of \<^verbatim>\<open>cfitsioLibs\<close>, one of which cannot resolve a tool.
\<close>

theorem generate_determined_counterexample:
  "fst (getitem (recorder cfitsio_config) ''cfitsioLibs'' []) =
     fst (getitem (unresolved ''st_streamLib'' cfitsio_config) ''cfitsioLibs'' []) \<and>
   requests (generate (recorder cfitsio_config) no_options []) \<noteq>
     requests (generate (unresolved ''st_streamLib'' cfitsio_config) no_options [])"
proof -
  have "fst (getitem (recorder cfitsio_config) ''cfitsioLibs'' []) =
     fst (getitem (unresolved ''st_streamLib'' cfitsio_config) ''cfitsioLibs'' [])"
    by (simp add: recorder_def unresolved_def)
  moreover have "requests (generate (recorder cfitsio_config) no_options []) \<noteq>
     requests (generate (unresolved ''st_streamLib'' cfitsio_config) no_options [])"
    by (simp add: run_recorder_cfitsio run_unresolved requests_def)
  ultimately show ?thesis by simp
qed

text \<open>
  Claim C9. When \<^verbatim>\<open>depsOnly\<close> is absent or falsy, the registration of
  \<^verbatim>\<open>['timeSystem']\<close> is the first request, and everything else that is issued (the
  dependency registrations, the subscript and the registration of the list read) comes
  after it, in the order of the source.
\<close>

theorem generate_artifact_first:
  assumes "truth_test (dict_get kw ''depsOnly'' (PInt 0)) = Inr False"
  shows "\<exists>v rest. requests (generate E kw s) = artifact_call # rest \<and>
           prefix rest (dependency_calls @ [Call_getitem ''cfitsioLibs'', third_party_call v])"
proof (cases rule: generate_run_cases [of kw E s])
  case (truth_raised x)
  with assms show ?thesis by simp
next
  case (Tool_raised b pre r post x)
  with assms have "artifact_call # dependency_calls = pre @ r # post"
    by (simp add: script_before_def)
  then consider "pre = []" "r = artifact_call"
    | pre' where "pre = artifact_call # pre'" "dependency_calls = pre' @ r # post"
    by (auto simp: Cons_eq_append_conv)
  then show ?thesis
  proof cases
    case 1
    with Tool_raised(3) show ?thesis by simp
  next
    case 2
    have "prefix (pre' @ [r])
            ((pre' @ r # post) @ [Call_getitem ''cfitsioLibs'', third_party_call PNone])"
      by (simp add: prefix_def)
    then have "prefix (pre' @ [r])
            (dependency_calls @ [Call_getitem ''cfitsioLibs'', third_party_call PNone])"
      by (simp only: 2(2))
    with Tool_raised(3) 2(1) show ?thesis by auto
  qed
next
  case (lookup_raised b x)
  with assms show ?thesis by (simp add: script_before_def prefix_def)
next
  case (registered b v r)
  with assms show ?thesis by (auto simp: script_before_def)
qed

theorem generate_artifact_first_witness:
  "truth_test (dict_get no_options ''depsOnly'' (PInt 0)) = Inr False \<and>
   (\<exists>v rest. requests (generate (recorder cfitsio_config) no_options []) = artifact_call # rest \<and>
      prefix rest (dependency_calls @ [Call_getitem ''cfitsioLibs'', third_party_call v])) \<and>
   hd (requests (generate (recorder cfitsio_config) no_options [])) = artifact_call"
proof -
  have "truth_test (dict_get no_options ''depsOnly'' (PInt 0)) = Inr False"
    by (simp add: no_options_def dict_get_def)
  moreover have "hd (requests (generate (recorder cfitsio_config) no_options [])) = artifact_call"
    by (simp add: run_recorder_cfitsio requests_def artifact_call_def)
  ultimately show ?thesis
    using generate_artifact_first [of no_options "recorder cfitsio_config" "[]"]
    by simp
qed

text \<open>
  Claim C10. Whenever the subscript \<^verbatim>\<open>env['cfitsioLibs']\<close> raises in an invocation
  (the key is missing when it is read), \<^verbatim>\<open>generate\<close> raises that exception, the
  subscript is the last request, and the requests before it are the registration of
  \<^verbatim>\<open>['timeSystem']\<close> (when \<^verbatim>\<open>depsOnly\<close> is absent or falsy) and the four dependency
  registrations, all of which returned: they have been issued by then. The subscript is
  reached when the truth test does not raise and no \<^verbatim>\<open>Tool\<close> call raises.
\<close>

theorem generate_not_atomic:
  "((Call_getitem ''cfitsioLibs'', Inl x) \<in> set (issued (generate E kw s)) \<longrightarrow>
      result (generate E kw s) = Inl x \<and>
      last (issued (generate E kw s)) = (Call_getitem ''cfitsioLibs'', Inl x) \<and>
      requests (generate E kw s) =
        (if truth_test (dict_get kw ''depsOnly'' (PInt 0)) = Inr False
         then [artifact_call] else []) @
        dependency_calls @ [Call_getitem ''cfitsioLibs''] \<and>
      list_all returned (butlast (issued (generate E kw s)))) \<and>
   (raised (truth_test (dict_get kw ''depsOnly'' (PInt 0))) = None \<and>
    no_Tool_raised (generate E kw s) \<longrightarrow>
      (\<exists>y. (Call_getitem ''cfitsioLibs'', y) \<in> set (issued (generate E kw s))))"
proof (cases rule: generate_run_cases [of kw E s])
  case (truth_raised y)
  then show ?thesis by simp
next
  case (Tool_raised b pre r post y)
  then show ?thesis by simp
next
  case (lookup_raised b y)
  then show ?thesis by (auto simp: script_before_def)
next
  case (registered b v r)
  then show ?thesis by simp
qed

theorem generate_not_atomic_witness:
  "raised (truth_test (dict_get no_options ''depsOnly'' (PInt 0))) = None \<and>
   no_Tool_raised (generate variables no_options empty_config) \<and>
   (Call_getitem ''cfitsioLibs'', Inl (KeyError ''cfitsioLibs''))
     \<in> set (issued (generate variables no_options empty_config)) \<and>
   result (generate variables no_options empty_config) = Inl (KeyError ''cfitsioLibs'') \<and>
   requests (generate variables no_options empty_config) =
     artifact_call # dependency_calls @ [Call_getitem ''cfitsioLibs''] \<and>
   env_after (generate (recorder empty_config) no_options []) = artifact_call # dependency_calls"
proof -
  have T: "truth_test (dict_get no_options ''depsOnly'' (PInt 0)) = Inr False"
    by (simp add: no_options_def dict_get_def)
  have "no_Tool_raised (generate variables no_options empty_config)"
    and "(Call_getitem ''cfitsioLibs'', Inl (KeyError ''cfitsioLibs''))
      \<in> set (issued (generate variables no_options empty_config))"
    by (simp_all add: run_variables_empty no_Tool_raised_def)
  moreover have "env_after (generate (recorder empty_config) no_options []) =
      artifact_call # dependency_calls"
    by (simp add: run_recorder_empty artifact_call_def dependency_calls_def)
  ultimately show ?thesis
    using T generate_not_atomic [of "KeyError ''cfitsioLibs''" variables no_options empty_config]
    by simp
qed

end
